theory Spec2Isabelle
  imports Main "HOL-Library.Word"
begin

unbundle bit_operations_syntax

section \<open>Strings and the SHA-256 digest\<close>

text \<open>
  A JavaScript string is modelled by the bytes of its UTF-8 encoding, a \<open>string\<close>
  (list of 8-bit characters): this is what \<open>createHash('sha256').update(value)\<close> hashes.
  Concatenation of strings is concatenation of their encodings (for well-formed strings,
  which is what repository URLs and branch names are).

  \<open>const sha256 = (value) => createHash('sha256').update(value).digest('hex')\<close>
  (services.js, line 11) calls the runtime's SHA-256. The digest is written out here as
  FIPS 180-4 defines it, on 32-bit words, so that the properties of identities that follow
  from the shape of a digest (64 characters, all of them lowercase hexadecimal digits) are
  theorems about the function and not assumptions.
\<close>

text \<open>The round constants, one row for every eight rounds.\<close>

definition K256 :: "32 word list" where
  "K256 = concat
     [[0x428a2f98, 0x71374491, 0xb5c0fbcf, 0xe9b5dba5, 0x3956c25b, 0x59f111f1, 0x923f82a4, 0xab1c5ed5],
      [0xd807aa98, 0x12835b01, 0x243185be, 0x550c7dc3, 0x72be5d74, 0x80deb1fe, 0x9bdc06a7, 0xc19bf174],
      [0xe49b69c1, 0xefbe4786, 0x0fc19dc6, 0x240ca1cc, 0x2de92c6f, 0x4a7484aa, 0x5cb0a9dc, 0x76f988da],
      [0x983e5152, 0xa831c66d, 0xb00327c8, 0xbf597fc7, 0xc6e00bf3, 0xd5a79147, 0x06ca6351, 0x14292967],
      [0x27b70a85, 0x2e1b2138, 0x4d2c6dfc, 0x53380d13, 0x650a7354, 0x766a0abb, 0x81c2c92e, 0x92722c85],
      [0xa2bfe8a1, 0xa81a664b, 0xc24b8b70, 0xc76c51a3, 0xd192e819, 0xd6990624, 0xf40e3585, 0x106aa070],
      [0x19a4c116, 0x1e376c08, 0x2748774c, 0x34b0bcb5, 0x391c0cb3, 0x4ed8aa4a, 0x5b9cca4f, 0x682e6ff3],
      [0x748f82ee, 0x78a5636f, 0x84c87814, 0x8cc70208, 0x90befffa, 0xa4506ceb, 0xbef9a3f7, 0xc67178f2]]"

type_synonym hash256 =
  "32 word \<times> 32 word \<times> 32 word \<times> 32 word \<times> 32 word \<times> 32 word \<times> 32 word \<times> 32 word"

definition H256 :: hash256 where
  "H256 =
    (0x6a09e667, 0xbb67ae85, 0x3c6ef372, 0xa54ff53a, 0x510e527f, 0x9b05688c, 0x1f83d9ab, 0x5be0cd19)"

definition Ch :: "32 word \<Rightarrow> 32 word \<Rightarrow> 32 word \<Rightarrow> 32 word" where
  "Ch x y z = (x AND y) XOR (NOT x AND z)"

definition Maj :: "32 word \<Rightarrow> 32 word \<Rightarrow> 32 word \<Rightarrow> 32 word" where
  "Maj x y z = (x AND y) XOR (x AND z) XOR (y AND z)"

definition bigSigma0 :: "32 word \<Rightarrow> 32 word" where
  "bigSigma0 x = word_rotr 2 x XOR word_rotr 13 x XOR word_rotr 22 x"

definition bigSigma1 :: "32 word \<Rightarrow> 32 word" where
  "bigSigma1 x = word_rotr 6 x XOR word_rotr 11 x XOR word_rotr 25 x"

definition smallSigma0 :: "32 word \<Rightarrow> 32 word" where
  "smallSigma0 x = word_rotr 7 x XOR word_rotr 18 x XOR drop_bit 3 x"

definition smallSigma1 :: "32 word \<Rightarrow> 32 word" where
  "smallSigma1 x = word_rotr 17 x XOR word_rotr 19 x XOR drop_bit 10 x"

text \<open>
  The padding of a message of \<open>n\<close> bytes: the byte 0x80, zero bytes up to 56 modulo 64,
  and the length in bits as a 64-bit big-endian number.
\<close>

definition padding :: "nat \<Rightarrow> 8 word list" where
  "padding n =
     0x80 # replicate ((119 - n mod 64) mod 64) 0
       @ map (\<lambda>i. ucast (drop_bit (8 * (7 - i)) (of_nat (8 * n) :: 64 word))) [0..<8]"

fun bigEndian :: "8 word list \<Rightarrow> 32 word" where
  "bigEndian [] = 0"
| "bigEndian (b # bs) = push_bit (8 * length bs) (ucast b) + bigEndian bs"

fun chunks :: "nat \<Rightarrow> nat \<Rightarrow> 'a list \<Rightarrow> 'a list list" where
  "chunks 0 k xs = []"
| "chunks (Suc n) k xs = take k xs # chunks n k (drop k xs)"

text \<open>
  The message schedule, newest word first: \<open>schedule 48\<close> extends the 16 words of a block
  (reversed) to the 64 words of the compression function.
\<close>

fun schedule :: "nat \<Rightarrow> 32 word list \<Rightarrow> 32 word list" where
  "schedule 0 w = w"
| "schedule (Suc n) w =
     schedule n ((smallSigma1 (w ! 1) + w ! 6 + smallSigma0 (w ! 14) + w ! 15) # w)"

fun round256 :: "hash256 \<Rightarrow> 32 word \<times> 32 word \<Rightarrow> hash256" where
  "round256 (a, b, c, d, e, f, g, h) (k, w) =
     (let t1 = h + bigSigma1 e + Ch e f g + k + w;
          t2 = bigSigma0 a + Maj a b c
      in (t1 + t2, a, b, c, d + t1, e, f, g))"

fun addHash :: "hash256 \<Rightarrow> hash256 \<Rightarrow> hash256" where
  "addHash (a, b, c, d, e, f, g, h) (a', b', c', d', e', f', g', h') =
     (a + a', b + b', c + c', d + d', e + e', f + f', g + g', h + h')"

definition compress :: "hash256 \<Rightarrow> 8 word list \<Rightarrow> hash256" where
  "compress H block =
     (let w = rev (schedule 48 (rev (map bigEndian (chunks 16 4 block))))
      in addHash H (foldl round256 H (zip K256 w)))"

definition hexDigits :: string where
  "hexDigits = ''0123456789abcdef''"

definition hexDigit :: "nat \<Rightarrow> char" where
  "hexDigit n = hexDigits ! n"

definition hex32 :: "32 word \<Rightarrow> string" where
  "hex32 w = map (\<lambda>i. hexDigit (unat (drop_bit (4 * (7 - i)) w AND 15))) [0..<8]"

fun hexHash :: "hash256 \<Rightarrow> string" where
  "hexHash (a, b, c, d, e, f, g, h) =
     hex32 a @ hex32 b @ hex32 c @ hex32 d @ hex32 e @ hex32 f @ hex32 g @ hex32 h"

definition sha256 :: "string \<Rightarrow> string" where
  "sha256 s =
     (let m = map of_char s @ padding (length s)
      in hexHash (foldl compress H256 (chunks (length m div 64) 64 m)))"

section \<open>Service identity\<close>

text \<open>
  \<^verbatim>\<open>getServiceId(repository, head) { return sha256(repository + head); }\<close>
\<close>

definition getServiceId :: "string \<Rightarrow> string \<Rightarrow> string" where
  "getServiceId repository head = sha256 (repository @ head)"

section \<open>Objects used as dictionaries\<close>

text \<open>
  \<open>FileStorage\<close> keeps its entries in a plain object (\<open>target.data = {}\<close>), and
  \<open>getAllServices\<close> builds its \<open>status\<close> table the same way. Such an object has its own
  properties, kept here as an association list in the order in which they were first
  assigned, and it inherits the members of \<open>Object.prototype\<close>: a read or an \<open>in\<close> test
  that finds no own property continues there.
  (\<open>Object.values\<close> lists keys that are array indices before the others; the keys used by
  the service manager are digests, which never are, and no property below depends on the
  order.)
\<close>

definition objectPrototypeKeys :: "string list" where
  "objectPrototypeKeys =
     [''constructor'', ''__defineGetter__'', ''__defineSetter__'', ''hasOwnProperty'',
      ''__lookupGetter__'', ''__lookupSetter__'', ''isPrototypeOf'', ''propertyIsEnumerable'',
      ''toString'', ''valueOf'', ''__proto__'', ''toLocaleString'']"

type_synonym 'v jsobject = "(string \<times> 'v) list"

text \<open>What \<open>obj[name]\<close> evaluates to.\<close>

datatype 'v property = Undefined | Own 'v | Inherited string

definition lookup :: "'v jsobject \<Rightarrow> string \<Rightarrow> 'v property" where
  "lookup obj name =
     (case map_of obj name of
        Some v \<Rightarrow> Own v
      | None \<Rightarrow> if name \<in> set objectPrototypeKeys then Inherited name else Undefined)"

text \<open>\<open>name in obj\<close>: an own or an inherited property.\<close>

definition hasProperty :: "'v jsobject \<Rightarrow> string \<Rightarrow> bool" where
  "hasProperty obj name = (name \<in> set objectPrototypeKeys \<or> map_of obj name \<noteq> None)"

text \<open>
  Defining an own property, as an object literal or a spread does: an existing key keeps
  its place, a new key goes last.
\<close>

fun putProp :: "'v jsobject \<Rightarrow> string \<Rightarrow> 'v \<Rightarrow> 'v jsobject" where
  "putProp [] name v = [(name, v)]"
| "putProp ((k, x) # ps) name v =
     (if k = name then (k, v) # ps else (k, x) # putProp ps name v)"

text \<open>
  The assignment \<open>obj[name] = value\<close>. For every name but one it defines or overwrites
  the own property. An assignment to \<open>__proto__\<close> on an object that has no own property of
  that name runs the setter inherited from \<open>Object.prototype\<close>, which stores nothing and may
  replace the prototype of the object. The model keeps objects with their original
  prototype only, so it leaves the result of that one assignment unspecified.
\<close>

definition assign :: "'v jsobject \<Rightarrow> string \<Rightarrow> 'v \<Rightarrow> 'v jsobject" where
  "assign obj name v =
     (if name = ''__proto__'' \<and> map_of obj name = None then undefined else putProp obj name v)"


definition objectValues :: "'v jsobject \<Rightarrow> 'v list" where
  "objectValues obj = map snd obj"

section \<open>The persistent store (storage.js)\<close>

text \<open>
  \<open>FileStorage\<close> is generic in what it stores; the model is polymorphic in the type \<open>'v\<close>
  of the stored values. The only thing \<open>get\<close> asks of a value is whether it is truthy
  (\<open>this.data[name] || defaultValue\<close>), so \<open>fs_get\<close> takes that test as its first argument.
  \<open>save\<close> writes a snapshot of the object to the file; the file is read by the constructor
  only, so the model keeps the object in memory and the name of the file.
\<close>

record 'v FileStorage =
  file' :: string
  data :: "'v jsobject"

text \<open>
  \<open>init(target, name)\<close>; \<open>persisted\<close> is the object that \<open>JSON.parse\<close> yields for the file
  when the file exists and holds one.
\<close>

definition fs_init :: "string \<Rightarrow> 'v jsobject option \<Rightarrow> 'v FileStorage" where
  "fs_init name persisted =
     \<lparr>file' = ''storage/'' @ name, data = (case persisted of None \<Rightarrow> [] | Some obj \<Rightarrow> obj)\<rparr>"

text \<open>What \<open>get\<close> returns: the stored value, a member of \<open>Object.prototype\<close>, or \<open>null\<close>.\<close>

datatype 'v jsresult = Null | Value 'v | Builtin string

definition fs_set :: "'v FileStorage \<Rightarrow> string \<Rightarrow> 'v \<Rightarrow> 'v FileStorage" where
  "fs_set s name v = s\<lparr>data := assign (data s) name v\<rparr>"

definition fs_get ::
  "('v \<Rightarrow> bool) \<Rightarrow> 'v FileStorage \<Rightarrow> string \<Rightarrow> 'v jsresult \<Rightarrow> 'v jsresult" where
  "fs_get truthy s name defaultValue =
     (case lookup (data s) name of
        Own v \<Rightarrow> if truthy v then Value v else defaultValue
      | Inherited k \<Rightarrow> Builtin k
      | Undefined \<Rightarrow> defaultValue)"

definition fs_getAll :: "'v FileStorage \<Rightarrow> 'v list" where
  "fs_getAll s = objectValues (data s)"

definition fs_has :: "'v FileStorage \<Rightarrow> string \<Rightarrow> bool" where
  "fs_has s name = hasProperty (data s) name"




definition stringTruthy :: "string \<Rightarrow> bool" where
  "stringTruthy s = (s \<noteq> [])"

definition objectTruthy :: "nat \<Rightarrow> bool" where
  "objectTruthy ref = True"

section \<open>Services\<close>

text \<open>
  The descriptor that \<open>deployService\<close> and \<open>createServiceConfiguration\<close> receive. A field
  that is absent, \<open>undefined\<close> or \<open>null\<close> is \<open>None\<close>; all the code does with such a field is
  test it for truthiness.
\<close>

record WebSocket =
  path :: "string option"

record Service =
  repository :: string
  head :: string
  type :: "string option"
  domain :: "string option"
  webSocket :: "WebSocket option"
  env :: "(string \<times> string) list option"
  url :: string
  cloneUrl :: string
  configurationUrl :: string

text \<open>
  The configuration fetched from the repository is a partial descriptor: the list of the
  fields it holds. \<open>{...service, ...configuration}\<close> overwrites each of them, also with
  \<open>null\<close>.
\<close>

datatype override =
    SetRepository string
  | SetHead string
  | SetType "string option"
  | SetDomain "string option"
  | SetWebSocket "WebSocket option"
  | SetEnv "(string \<times> string) list option"
  | SetUrl string
  | SetCloneUrl string
  | SetConfigurationUrl string

fun applyOverride :: "Service \<Rightarrow> override \<Rightarrow> Service" where
  "applyOverride s (SetRepository x) = s\<lparr>repository := x\<rparr>"
| "applyOverride s (SetHead x) = s\<lparr>head := x\<rparr>"
| "applyOverride s (SetType x) = s\<lparr>type := x\<rparr>"
| "applyOverride s (SetDomain x) = s\<lparr>domain := x\<rparr>"
| "applyOverride s (SetWebSocket x) = s\<lparr>webSocket := x\<rparr>"
| "applyOverride s (SetEnv x) = s\<lparr>env := x\<rparr>"
| "applyOverride s (SetUrl x) = s\<lparr>url := x\<rparr>"
| "applyOverride s (SetCloneUrl x) = s\<lparr>cloneUrl := x\<rparr>"
| "applyOverride s (SetConfigurationUrl x) = s\<lparr>configurationUrl := x\<rparr>"

definition spread :: "Service \<Rightarrow> override list \<Rightarrow> Service" where
  "spread service configuration = foldl applyOverride service configuration"

text \<open>
  The object that \<open>createServiceConfiguration\<close> returns, with the two properties that are
  added to it later: \<open>imageId\<close> (by \<open>Docker.createImage\<close>) and \<open>online\<close> (by
  \<open>getAllServices\<close>); \<open>None\<close> is a property that was never set. Fields whose name the
  descriptor has too carry a prime.
\<close>

datatype envValue = EnvString string | EnvNumber nat

record ServiceConfiguration =
  id' :: string
  type' :: string
  url' :: string
  cloneUrl' :: string
  branch :: string
  repository' :: string
  webSocket' :: "WebSocket option"
  domains :: "string list"
  ports :: "nat list"
  env' :: "(string \<times> envValue) list"
  imageId :: "string option"
  online :: "bool option"

datatype error = Error (message: string)

section \<open>The container engine adapter (docker.js)\<close>

text \<open>
  The two fields of the \<open>DockerManager\<close> that the service manager reads, as \<open>init\<close> assigns
  them: the entries of the directory \<open>images\<close> and the constant \<open>'node'\<close>.
\<close>

record DockerManager =
  availableServiceTypes :: "string list"
  defaultServiceType :: string

definition init :: "string list \<Rightarrow> DockerManager" where
  "init images = \<lparr>availableServiceTypes = images, defaultServiceType = ''node''\<rparr>"

section \<open>The environment and the state of the process\<close>

text \<open>
  Everything the code obtains from outside is an input of the model. Each call to the
  outside is numbered by a counter (\<open>tick\<close>), and the environment says what the call with
  a given number yields: a value, or the error it throws. Nothing is assumed about the
  container engine, the proxy, the source host or the random source.
\<close>

record environment =
  cloudyDomain :: string
  docker :: DockerManager
  roundedRandom :: "nat \<Rightarrow> nat"
  randomBytesHex :: "nat \<Rightarrow> string"
  runningContainers :: "nat \<Rightarrow> error + string list"
  execBuild :: "nat \<Rightarrow> error + string"
  execStop :: "nat \<Rightarrow> error + unit"
  execRun :: "nat \<Rightarrow> error + unit"
  nginxConfigure :: "nat \<Rightarrow> error + unit"
  nginxReload :: "nat \<Rightarrow> error + unit"
  fetchServiceConfiguration :: "nat \<Rightarrow> string \<Rightarrow> error + override list"
  repositoryExists :: "nat \<Rightarrow> string \<Rightarrow> error + bool"
  getServiceFromRepository :: "nat \<Rightarrow> string \<Rightarrow> string \<Rightarrow> error + Service"

text \<open>
  \<open>cloudyDomain\<close> is \<open>process.env.CLOUDY_DOMAIN || 'local'\<close>; \<open>roundedRandom n\<close> is the
  value of \<open>Math.round(Math.random() * 60000)\<close> at call \<open>n\<close>; \<open>randomBytesHex n\<close> is
  \<open>randomBytes(256).toString('hex')\<close>; \<open>runningContainers n\<close> is what
  \<open>Docker.getRunningContainers()\<close> returns, the output of \<open>docker ps\<close> after
  \<open>trim().split('\\n')\<close>: the names of the running containers, or one empty name when
  there is none.

  The state: the two stores and the flag of the \<open>ServiceManager\<close>; the service objects,
  which the store, the callers of \<open>getAllServices\<close> and the pending callbacks share by
  reference, so they live in a heap and are named by their address; the callbacks that
  \<open>setTimeout\<close> has queued; the commands issued to the container engine and the proxy; and
  the errors of detached calls, which no caller receives.

  An operation is followed from its call to its return, with no other operation in
  between; a queued callback runs later, on its own.
\<close>

datatype command =
  DockerBuild string | DockerStop string | DockerRun string | NginxConfigure string | NginxReload

record world =
  services :: "nat FileStorage"
  serviceKeys :: "string FileStorage"
  building :: "bool option"
  heap :: "nat \<Rightarrow> ServiceConfiguration"
  nextRef :: nat
  tick :: nat
  timers :: "nat list"
  commands :: "command list"
  unhandled :: "error list"

type_synonym 'a outcome = "(error + 'a) \<times> world"

definition getRunningContainers :: "environment \<Rightarrow> world \<Rightarrow> string list outcome" where
  "getRunningContainers e w = (runningContainers e (tick w), w\<lparr>tick := Suc (tick w)\<rparr>)"

text \<open>
  A command handed to the shell or to the proxy adapter: it is recorded, and the
  environment decides whether it throws.
\<close>

definition issue :: "command \<Rightarrow> (nat \<Rightarrow> error + 'a) \<Rightarrow> world \<Rightarrow> 'a outcome" where
  "issue c result w = (result (tick w), w\<lparr>tick := Suc (tick w), commands := commands w @ [c]\<rparr>)"

text \<open>Sequencing: a thrown error skips what follows.\<close>

definition andThen :: "'a outcome \<Rightarrow> ('a \<Rightarrow> world \<Rightarrow> 'b outcome) \<Rightarrow> 'b outcome" where
  "andThen r f = (case r of (Inl err, w) \<Rightarrow> (Inl err, w) | (Inr x, w) \<Rightarrow> f x w)"

text \<open>
  \<^verbatim>\<open>createImage(service) {
    try { ... const imageId = Shell.execAndLog('docker', ['build', ...]);
          service.imageId = imageId;
    } catch { throw new Error('Failed to create image for ' + service.cloneUrl); } }\<close>
\<close>

definition createImage :: "environment \<Rightarrow> nat \<Rightarrow> world \<Rightarrow> unit outcome" where
  "createImage e service w =
     (case issue (DockerBuild (id' (heap w service))) (execBuild e) w of
        (Inl err, w1) \<Rightarrow>
          (Inl (Error (''Failed to create image for '' @ cloneUrl' (heap w service))), w1)
      | (Inr newImageId, w1) \<Rightarrow>
          (Inr (), w1\<lparr>heap := (heap w1)(service := (heap w1 service)\<lparr>imageId := Some newImageId\<rparr>)\<rparr>))"

text \<open>
  \<^verbatim>\<open>stopService(service) {
    const runningContainers = this.getRunningContainers();
    if (runningContainers.includes(service.id)) {
      Shell.execAndLog('docker', ['stop', '--time', '2', service.id]); } }\<close>

  \<open>runService\<close> builds the arguments of \<open>docker run\<close> from the ports and the environment of
  the service and hands them to \<open>Shell.execAndLog\<close>. \<open>Nginx.configureService\<close> and
  \<open>Nginx.reload\<close> belong to the proxy adapter.
\<close>

definition stopService :: "environment \<Rightarrow> nat \<Rightarrow> world \<Rightarrow> unit outcome" where
  "stopService e service w =
     andThen (getRunningContainers e w) (\<lambda>running w1.
       if id' (heap w1 service) \<in> set running
       then issue (DockerStop (id' (heap w1 service))) (execStop e) w1
       else (Inr (), w1))"

definition runService :: "environment \<Rightarrow> nat \<Rightarrow> world \<Rightarrow> unit outcome" where
  "runService e service w = issue (DockerRun (id' (heap w service))) (execRun e) w"

definition configureService :: "environment \<Rightarrow> nat \<Rightarrow> world \<Rightarrow> unit outcome" where
  "configureService e service w = issue (NginxConfigure (id' (heap w service))) (nginxConfigure e) w"

definition reload :: "environment \<Rightarrow> world \<Rightarrow> unit outcome" where
  "reload e w = issue NginxReload (nginxReload e) w"

section \<open>The service manager (services.js)\<close>

text \<open>
  \<^verbatim>\<open>getAllServices() {
    const allServices = this.services.getAll();
    const runningServices = Docker.getRunningContainers();
    const status = allServices.reduce((map, service) => (map[service.id] = service, map), {});
    runningServices.filter(name => !!status[name])
                   .forEach(name => (status[name].online = true));
    return Object.values(status); }\<close>

  The objects in \<open>status\<close> are the objects of the store, so the write to \<open>online\<close> is a
  write to the heap. A name that finds a member of \<open>Object.prototype\<close> in \<open>status\<close> passes the
  filter too; the write then goes to that member, outside the state modelled here.
\<close>

definition markOnline ::
  "nat jsobject \<Rightarrow> (nat \<Rightarrow> ServiceConfiguration) \<Rightarrow> string \<Rightarrow> (nat \<Rightarrow> ServiceConfiguration)" where
  "markOnline status h name =
     (case lookup status name of
        Own service \<Rightarrow> h(service := (h service)\<lparr>online := Some True\<rparr>)
      | Inherited k \<Rightarrow> h
      | Undefined \<Rightarrow> h)"

definition getAllServices :: "environment \<Rightarrow> world \<Rightarrow> nat list outcome" where
  "getAllServices e w =
     (let allServices = fs_getAll (services w)
      in andThen (getRunningContainers e w) (\<lambda>runningServices w1.
           let status = foldl (\<lambda>map service. assign map (id' (heap w1 service)) service) [] allServices;
               found = filter (\<lambda>name. lookup status name \<noteq> Undefined) runningServices
           in (Inr (objectValues status), w1\<lparr>heap := foldl (markOnline status) (heap w1) found\<rparr>)))"

text \<open>
  \<^verbatim>\<open>getServiceType(service) {
    return service.type && Docker.availableServiceTypes.includes(service.type)
      ? service.type : Docker.defaultServiceType; }\<close>
\<close>

definition getServiceType :: "DockerManager \<Rightarrow> Service \<Rightarrow> string" where
  "getServiceType d service =
     (case type service of
        None \<Rightarrow> defaultServiceType d
      | Some t \<Rightarrow>
          if stringTruthy t \<and> t \<in> set (availableServiceTypes d) then t else defaultServiceType d)"

text \<open>
  \<^verbatim>\<open>getRandomPort() {
    const newRandomPort = () => 3000 + Math.round(Math.random() * 60000);
    const portsInUse = this.getAllServices().reduce((ports, service) => ports.concat(service.ports), []);
    let port;
    while (port = newRandomPort()) {
      if (portsInUse.includes(port) === false) { return port; } } }\<close>

  A port is at least 3000, so the loop condition is always true: the loop ends only by
  returning. \<open>drawPort\<close> is the loop, started at call number \<open>t\<close>; it yields the port and
  the number of the next call, and \<open>None\<close> when the loop never returns.
\<close>

partial_function (option) drawPort :: "(nat \<Rightarrow> nat) \<Rightarrow> nat list \<Rightarrow> nat \<Rightarrow> (nat \<times> nat) option" where
  "drawPort random portsInUse t =
     (if 3000 + random t \<in> set portsInUse
      then drawPort random portsInUse (Suc t)
      else Some (3000 + random t, Suc t))"

definition getRandomPort :: "environment \<Rightarrow> world \<Rightarrow> nat outcome option" where
  "getRandomPort e w =
     (case getAllServices e w of
        (Inl err, w1) \<Rightarrow> Some (Inl err, w1)
      | (Inr all, w1) \<Rightarrow>
          (let portsInUse = foldl (\<lambda>ps service. ps @ ports (heap w1 service)) [] all
           in case drawPort (roundedRandom e) portsInUse (tick w1) of
                None \<Rightarrow> None
              | Some (port, t) \<Rightarrow> Some (Inr port, w1\<lparr>tick := t\<rparr>)))"

text \<open>
  \<^verbatim>\<open>createServiceConfiguration(service) {
    const serviceId = this.getServiceId(service.repository, service.head);
    const serviceType = this.getServiceType(service);
    const httpPort = this.getRandomPort();
    const domains = [service.domain, serviceId.slice(0, 7) + '.' + cloudyDomain].filter(Boolean);
    const hasWebSocket = !!service.webSocket && service.webSocket.path;
    const webSocket = hasWebSocket ? { path: service.webSocket.path } : null;
    const ports = [httpPort];
    const env = { ...(service.env || {}), PORT: httpPort };
    if (hasWebSocket) {
      env.WEBSOCKET_PORT = this.getRandomPort();
      ports.push(env.WEBSOCKET_PORT); }
    return { id: serviceId, type: serviceType, url: service.url, cloneUrl: service.cloneUrl,
      branch: service.head, repository: service.repository, webSocket, domains, ports, env }; }\<close>

  The result is a new object: it is allocated at the next free address, which is returned.
\<close>

definition Boolean :: "string option \<Rightarrow> bool" where
  "Boolean x = (case x of None \<Rightarrow> False | Some s \<Rightarrow> stringTruthy s)"

definition hasWebSocket :: "Service \<Rightarrow> bool" where
  "hasWebSocket service =
     (case webSocket service of None \<Rightarrow> False | Some ws \<Rightarrow> Boolean (path ws))"

definition allocate :: "ServiceConfiguration \<Rightarrow> world \<Rightarrow> nat outcome" where
  "allocate c w = (Inr (nextRef w), w\<lparr>heap := (heap w)(nextRef w := c), nextRef := Suc (nextRef w)\<rparr>)"

definition createServiceConfiguration :: "environment \<Rightarrow> world \<Rightarrow> Service \<Rightarrow> nat outcome option" where
  "createServiceConfiguration e w service =
     (let serviceId = getServiceId (repository service) (head service);
          serviceType = getServiceType (docker e) service
      in case getRandomPort e w of
           None \<Rightarrow> None
         | Some (Inl err, w1) \<Rightarrow> Some (Inl err, w1)
         | Some (Inr httpPort, w1) \<Rightarrow>
             (let newDomains =
                    map the (filter Boolean [domain service, Some (take 7 serviceId @ ''.'' @ cloudyDomain e)]);
                  newWebSocket = (if hasWebSocket service then Some \<lparr>path = path (the (webSocket service))\<rparr> else None);
                  newEnv = putProp (map (\<lambda>(k, v). (k, EnvString v)) (case env service of None \<Rightarrow> [] | Some vars \<Rightarrow> vars))
                             ''PORT'' (EnvNumber httpPort);
                  result = (\<lambda>newPorts finalEnv.
                    \<lparr>id' = serviceId, type' = serviceType, url' = url service, cloneUrl' = cloneUrl service,
                     branch = head service, repository' = repository service, webSocket' = newWebSocket,
                     domains = newDomains, ports = newPorts, env' = finalEnv, imageId = None, online = None\<rparr>)
              in if hasWebSocket service
                 then (case getRandomPort e w1 of
                         None \<Rightarrow> None
                       | Some (Inl err, w2) \<Rightarrow> Some (Inl err, w2)
                       | Some (Inr webSocketPort, w2) \<Rightarrow>
                           Some (allocate (result [httpPort, webSocketPort]
                                   (putProp newEnv ''WEBSOCKET_PORT'' (EnvNumber webSocketPort))) w2))
                 else Some (allocate (result [httpPort] newEnv) w1)))"

text \<open>
  \<^verbatim>\<open>async rebuildService(cloudyServiceConfig) {
    try { this.building = true;
          Docker.createImage(cloudyServiceConfig);
          Docker.stopService(cloudyServiceConfig);
          Docker.runService(cloudyServiceConfig);
          await Nginx.configureService(cloudyServiceConfig);
          Nginx.reload();
    } catch (error) { this.building = false; throw error; } }\<close>
\<close>

definition rebuildSteps :: "environment \<Rightarrow> nat \<Rightarrow> world \<Rightarrow> unit outcome" where
  "rebuildSteps e service w =
     andThen (createImage e service w) (\<lambda>_ w1.
     andThen (stopService e service w1) (\<lambda>_ w2.
     andThen (runService e service w2) (\<lambda>_ w3.
     andThen (configureService e service w3) (\<lambda>_ w4.
     reload e w4))))"

definition rebuildService :: "environment \<Rightarrow> world \<Rightarrow> nat \<Rightarrow> unit outcome" where
  "rebuildService e w service =
     (case rebuildSteps e service (w\<lparr>building := Some True\<rparr>) of
        (Inl err, w1) \<Rightarrow> (Inl err, w1\<lparr>building := Some False\<rparr>)
      | (Inr u, w1) \<Rightarrow> (Inr u, w1))"

text \<open>
  \<^verbatim>\<open>async rebuildRepository(repository, head = 'master') {
    const serviceId = Services.getServiceId(repository, head);
    const serviceConfiguration = this.services.get(serviceId);
    if (!serviceConfiguration) {
      throw new Error(`Service configuration for ${repository}:${head} not found!`); }
    return await this.rebuildService(serviceConfiguration); }\<close>

  \<open>get\<close> can return a member of \<open>Object.prototype\<close> only for a key that names one, which a
  digest never does (lemma \<open>digest_not_inherited\<close> below); that branch is left unspecified.
\<close>

definition orMaster :: "string option \<Rightarrow> string" where
  "orMaster h = (case h of None \<Rightarrow> ''master'' | Some x \<Rightarrow> x)"

definition rebuildRepository ::
  "environment \<Rightarrow> world \<Rightarrow> string \<Rightarrow> string option \<Rightarrow> unit outcome" where
  "rebuildRepository e w r h =
     (let serviceId = getServiceId r (orMaster h)
      in case fs_get objectTruthy (services w) serviceId Null of
           Null \<Rightarrow>
             (Inl (Error (''Service configuration for '' @ r @ '':'' @ orMaster h @ '' not found!'')), w)
         | Value serviceConfiguration \<Rightarrow> rebuildService e w serviceConfiguration
         | Builtin k \<Rightarrow> undefined)"

text \<open>
  \<^verbatim>\<open>async deployService(service) {
    try {
      const configuration = await Github.fetchServiceConfiguration(service.configurationUrl);
      const cloudyServiceConfig = this.createServiceConfiguration({ ...service, ...configuration });
      setTimeout(async () => {
        this.services.set(cloudyServiceConfig.id, cloudyServiceConfig);
        this.rebuildService(cloudyServiceConfig); });
      return cloudyServiceConfig.id;
    } catch (error) { ...
      throw new Error('Service creation failed: ' + error.message); } }\<close>

  \<open>deployService\<close> queues the callback and returns; \<open>fireTimer\<close> is the later run of the
  oldest queued callback. The callback does not await \<open>rebuildService\<close> and nothing awaits
  the callback: an error of the rebuild has no caller to go to.
\<close>

definition creationFailed :: "error \<Rightarrow> error" where
  "creationFailed err = Error (''Service creation failed: '' @ message err)"

definition deployService :: "environment \<Rightarrow> world \<Rightarrow> Service \<Rightarrow> string outcome option" where
  "deployService e w service =
     (let w0 = w\<lparr>tick := Suc (tick w)\<rparr>
      in case fetchServiceConfiguration e (tick w) (configurationUrl service) of
           Inl err \<Rightarrow> Some (Inl (creationFailed err), w0)
         | Inr configuration \<Rightarrow>
             (case createServiceConfiguration e w0 (spread service configuration) of
                None \<Rightarrow> None
              | Some (Inl err, w1) \<Rightarrow> Some (Inl (creationFailed err), w1)
              | Some (Inr cloudyServiceConfig, w1) \<Rightarrow>
                  Some (Inr (id' (heap w1 cloudyServiceConfig)),
                        w1\<lparr>timers := timers w1 @ [cloudyServiceConfig]\<rparr>)))"


text \<open>
  \<^verbatim>\<open>getServiceKey(repository) {
    const serviceId = sha256(repository);
    return this.serviceKeys.get(serviceId); }

  async createServiceKey(repository) {
    if (!repository) { throw new Error('Invalid repository'); }
    const repositoryExists = await Github.exists(repository);
    if (!repositoryExists) { throw new Error('Repository not found'); }
    const serviceKeyExists = this.getServiceKey(repository);
    if (serviceKeyExists) { throw new Error('Service already exists'); }
    const serviceKeyId = sha256(repository);
    const serviceKey = sha256(randomBytes(256).toString('hex'));
    this.serviceKeys.set(serviceKeyId, serviceKey);
    return serviceKey; }\<close>
\<close>

definition getServiceKey :: "world \<Rightarrow> string \<Rightarrow> string jsresult" where
  "getServiceKey w r = fs_get stringTruthy (serviceKeys w) (sha256 r) Null"

definition createServiceKey :: "environment \<Rightarrow> world \<Rightarrow> string option \<Rightarrow> string outcome" where
  "createServiceKey e w r =
     (if \<not> Boolean r then (Inl (Error ''Invalid repository''), w)
      else
        (let w1 = w\<lparr>tick := Suc (tick w)\<rparr>
         in case repositoryExists e (tick w) (the r) of
              Inl err \<Rightarrow> (Inl err, w1)
            | Inr False \<Rightarrow> (Inl (Error ''Repository not found''), w1)
            | Inr True \<Rightarrow>
                (if getServiceKey w1 (the r) \<noteq> Null
                 then (Inl (Error ''Service already exists''), w1)
                 else
                   (let serviceKeyId = sha256 (the r);
                        serviceKey = sha256 (randomBytesHex e (tick w1))
                    in (Inr serviceKey,
                        w1\<lparr>tick := Suc (tick w1),
                           serviceKeys := fs_set (serviceKeys w1) serviceKeyId serviceKey\<rparr>)))))"


section \<open>Example inputs\<close>

text \<open>
  Concrete states and environments, used where a property is evaluated on an input. In
  the initial state both stores are empty, as the constructor builds them when no file
  exists, and every address of the heap holds the same blank object.
\<close>

definition blankService :: ServiceConfiguration where
  "blankService =
     \<lparr>id' = [], type' = [], url' = [], cloneUrl' = [], branch = [], repository' = [],
      webSocket' = None, domains = [], ports = [], env' = [], imageId = None, online = None\<rparr>"

definition initialWorld :: world where
  "initialWorld =
     \<lparr>services = fs_init ''services'' None, serviceKeys = fs_init ''serviceKeys'' None,
      building = None, heap = (\<lambda>ref. blankService), nextRef = 0, tick = 0, timers = [],
      commands = [], unhandled = []\<rparr>"

text \<open>
  An environment in which every outside call succeeds: no container runs (\<open>docker ps\<close>
  prints nothing, which \<open>trim().split('\n')\<close> turns into one empty name), the repository
  declares nothing, and every random draw is 5.
\<close>

definition calmEnvironment :: environment where
  "calmEnvironment =
     \<lparr>cloudyDomain = ''local'', docker = init [''node'', ''static''],
      roundedRandom = (\<lambda>n. 5), randomBytesHex = (\<lambda>n. ''00''),
      runningContainers = (\<lambda>n. Inr [[]]),
      execBuild = (\<lambda>n. Inr ''sha256:1''), execStop = (\<lambda>n. Inr ()), execRun = (\<lambda>n. Inr ()),
      nginxConfigure = (\<lambda>n. Inr ()), nginxReload = (\<lambda>n. Inr ()),
      fetchServiceConfiguration = (\<lambda>n u. Inr []),
      repositoryExists = (\<lambda>n r. Inr True),
      getServiceFromRepository = (\<lambda>n r h.
        Inr \<lparr>repository = r, head = h, type = None, domain = None, webSocket = None, env = None,
             url = r, cloneUrl = r, configurationUrl = r\<rparr>)\<rparr>"

definition plainService :: Service where
  "plainService =
     \<lparr>repository = ''git://x/y'', head = ''master'', type = None, domain = None,
      webSocket = None, env = None, url = ''https://x/y'', cloneUrl = ''git://x/y'',
      configurationUrl = ''https://x/y/service.json''\<rparr>"

definition webSocketService :: Service where
  "webSocketService = plainService\<lparr>webSocket := Some \<lparr>path = Some ''/socket''\<rparr>\<rparr>"

text \<open>A state with one stored service, named \<open>a\<close>, at address 0.\<close>

definition oneServiceWorld :: world where
  "oneServiceWorld =
     initialWorld\<lparr>services := fs_set (fs_init ''services'' None) ''a'' 0,
                  heap := (\<lambda>ref. blankService)(0 := blankService\<lparr>id' := ''a''\<rparr>),
                  nextRef := 1\<rparr>"

text \<open>The container \<open>a\<close> runs at the first call of \<open>docker ps\<close> and has stopped afterwards.\<close>

definition stoppedLaterEnvironment :: environment where
  "stoppedLaterEnvironment =
     calmEnvironment\<lparr>runningContainers := (\<lambda>n. if n = 0 then Inr [''a''] else Inr [[]])\<rparr>"

definition missingRepositoryEnvironment :: environment where
  "missingRepositoryEnvironment = calmEnvironment\<lparr>repositoryExists := (\<lambda>n r. Inr False)\<rparr>"


text \<open>The state after a key was created for \<open>git://x/y\<close>.\<close>

definition registeredWorld :: world where
  "registeredWorld = snd (createServiceKey calmEnvironment initialWorld (Some ''git://x/y''))"

text \<open>
  Two deployments of \<open>git://x/y\<close> in a row, at \<open>master\<close> and at \<open>dev\<close>, with no callback run
  in between: the final state.
\<close>

definition afterTwoDeployments :: "world option" where
  "afterTwoDeployments =
     (case deployService calmEnvironment initialWorld plainService of
        None \<Rightarrow> None
      | Some (r1, w1) \<Rightarrow>
          map_option snd (deployService calmEnvironment w1 (plainService\<lparr>head := ''dev''\<rparr>)))"

section \<open>Notions used in the statements\<close>


text \<open>The object that a call of \<open>createServiceConfiguration\<close> returned, if it returned one.\<close>

definition createdService :: "nat outcome option \<Rightarrow> ServiceConfiguration option" where
  "createdService r = (case r of Some (Inr ref, w) \<Rightarrow> Some (heap w ref) | _ \<Rightarrow> None)"


text \<open>
  The random source keeps yielding, from every call on, a port that no service object
  holds: the condition under which the loop of \<open>getRandomPort\<close> is sure to return.
\<close>

definition freePortsKeepComing :: "environment \<Rightarrow> world \<Rightarrow> bool" where
  "freePortsKeepComing e w =
     (\<forall>t. \<exists>k. \<forall>service. 3000 + roundedRandom e (t + k) \<notin> set (ports (heap w service)))"


section \<open>Properties of the digest\<close>

lemma length_hex32: "length (hex32 w) = 8"
  by (simp add: hex32_def)

lemma nibble_less_16: "unat ((x :: 32 word) AND 15) < 16"
proof -
  have "x AND 15 = take_bit 4 x"
    by (simp add: take_bit_eq_mask mask_eq_exp_minus_1)
  then have "unat (x AND 15) = take_bit 4 (unat x)"
    by (simp add: unsigned_take_bit_eq)
  also have "\<dots> < 2 ^ 4"
    by (rule take_bit_nat_less_exp)
  finally show ?thesis by simp
qed

lemma hexDigit_in_hexDigits: "n < 16 \<Longrightarrow> hexDigit n \<in> set hexDigits"
  unfolding hexDigit_def by (rule nth_mem) (simp add: hexDigits_def)

lemma set_hex32: "set (hex32 w) \<subseteq> set hexDigits"
  by (auto simp: hex32_def intro!: hexDigit_in_hexDigits nibble_less_16)

lemma length_hexHash: "length (hexHash H) = 64"
  by (cases H rule: hexHash.cases) (simp add: length_hex32)

lemma set_hexHash: "set (hexHash H) \<subseteq> set hexDigits"
  using set_hex32 by (cases H rule: hexHash.cases) auto

lemma length_sha256: "length (sha256 s) = 64"
  by (simp add: sha256_def Let_def length_hexHash)

lemma set_sha256: "set (sha256 s) \<subseteq> set hexDigits"
  by (simp add: sha256_def Let_def set_hexHash)

text \<open>The first example of FIPS 180-4, and the identity used in the examples below.\<close>

lemma sha256_abc:
  "sha256 ''abc'' = ''ba7816bf8f01cfea414140de5dae2223b00361a396177a9cb410ff61f20015ad''"
  by code_simp

lemma identity_of_x_y_master:
  "getServiceId ''git://x/y'' ''master'' =
     ''bb020d40948efa534587419064db36383fd8286e9b7acb30e223e40b290826c6''"
  unfolding getServiceId_def by code_simp

text \<open>A digest is never the name of a member of \<open>Object.prototype\<close>, and never empty.\<close>

lemma sha256_not_inherited: "sha256 x \<notin> set objectPrototypeKeys"
proof
  assume "sha256 x \<in> set objectPrototypeKeys"
  then have "length (sha256 x) < 64"
    by (auto simp: objectPrototypeKeys_def)
  then show False
    by (simp add: length_sha256)
qed

lemma digest_not_inherited: "getServiceId r h \<notin> set objectPrototypeKeys"
  by (simp add: getServiceId_def sha256_not_inherited)

lemma sha256_not_proto: "sha256 x \<noteq> ''__proto__''"
  using sha256_not_inherited [of x] by (auto simp: objectPrototypeKeys_def)

lemma sha256_truthy: "stringTruthy (sha256 x)"
  using length_sha256 [of x] by (auto simp: stringTruthy_def)

section \<open>Properties of dictionaries and of the store\<close>

lemma map_of_putProp_same: "map_of (putProp obj name v) name = Some v"
  by (induction obj name v rule: putProp.induct) auto

lemma map_of_putProp_other: "k \<noteq> name \<Longrightarrow> map_of (putProp obj name v) k = map_of obj k"
  by (induction obj name v rule: putProp.induct) auto


lemma lookup_assign_same: "name \<noteq> ''__proto__'' \<Longrightarrow> lookup (assign obj name v) name = Own v"
  by (simp add: lookup_def assign_def map_of_putProp_same)

lemma lookup_assign_other:
  "name \<noteq> ''__proto__'' \<Longrightarrow> k \<noteq> name \<Longrightarrow> lookup (assign obj name v) k = lookup obj k"
  by (simp add: lookup_def assign_def map_of_putProp_other)

lemma fs_get_absent:
  assumes "\<not> fs_has s name"
  shows "fs_get truthy s name d = d"
  using assms by (auto simp: fs_has_def fs_get_def hasProperty_def lookup_def)

section \<open>Port allocation\<close>

text \<open>
  The loop of \<open>getRandomPort\<close> returns only a port that is not in use, and it returns as
  soon as the random source yields such a port.
\<close>

lemma drawPort_fresh:
  assumes "drawPort random portsInUse t = Some r"
  shows "fst r \<notin> set portsInUse \<and> t < snd r"
proof (rule drawPort.raw_induct
    [where P = "\<lambda>random portsInUse t r. fst r \<notin> set portsInUse \<and> t < snd r", OF _ assms])
  fix loop :: "(nat \<Rightarrow> nat) \<Rightarrow> nat list \<Rightarrow> nat \<Rightarrow> (nat \<times> nat) option"
    and rnd used n res
  assume later: "\<And>rnd' used' n' res'. loop rnd' used' n' = Some res' \<Longrightarrow>
                   fst res' \<notin> set used' \<and> n' < snd res'"
    and step: "(if 3000 + rnd n \<in> set used then loop rnd used (Suc n)
                else Some (3000 + rnd n, Suc n)) = Some res"
  show "fst res \<notin> set used \<and> n < snd res"
  proof (cases "3000 + rnd n \<in> set used")
    case True
    with step have "loop rnd used (Suc n) = Some res" by simp
    from later [OF this] show ?thesis by simp
  next
    case False
    with step show ?thesis by auto
  qed
qed

lemma drawPort_free:
  "3000 + random t \<notin> set portsInUse \<Longrightarrow>
   drawPort random portsInUse t = Some (3000 + random t, Suc t)"
  by (subst drawPort.simps) simp

lemma drawPort_returns:
  assumes "3000 + random (t + k) \<notin> set portsInUse"
  shows "\<exists>r. drawPort random portsInUse t = Some r"
  using assms
proof (induction k arbitrary: t)
  case 0
  then show ?case by (subst drawPort.simps) simp
next
  case (Suc k)
  then have "\<exists>r. drawPort random portsInUse (Suc t) = Some r" by simp
  then show ?case by (subst drawPort.simps) simp
qed

lemma set_foldl_append:
  "set (foldl (\<lambda>ps x. ps @ f x) acc xs) = set acc \<union> (\<Union>x\<in>set xs. set (f x))"
  by (induction xs arbitrary: acc) auto

text \<open>
  A port that \<open>getRandomPort\<close> returns belongs to none of the services that
  \<open>getAllServices\<close> listed for it: the services of the store.
\<close>

lemma getRandomPort_fresh:
  assumes "getRandomPort e w = Some (Inr port, w')"
    and "getAllServices e w = (Inr known, w1)"
    and "service \<in> set known"
  shows "port \<notin> set (ports (heap w1 service))"
proof -
  let ?inUse = "foldl (\<lambda>ps service. ps @ ports (heap w1 service)) [] known"
  from assms(1,2) obtain t where "drawPort (roundedRandom e) ?inUse (tick w1) = Some (port, t)"
    by (auto simp: getRandomPort_def Let_def split: option.splits)
  then have "port \<notin> set ?inUse"
    using drawPort_fresh by fastforce
  with assms(3) show ?thesis
    by (simp add: set_foldl_append)
qed

lemma getRandomPort_returns:
  assumes "getAllServices e w = (Inr known, w1)"
    and "3000 + roundedRandom e (tick w1 + k)
           \<notin> set (foldl (\<lambda>ps service. ps @ ports (heap w1 service)) [] known)"
  shows "\<exists>port w'. getRandomPort e w = Some (Inr port, w')"
proof -
  from assms(2) obtain r where
    "drawPort (roundedRandom e) (foldl (\<lambda>ps service. ps @ ports (heap w1 service)) [] known) (tick w1)
       = Some r"
    using drawPort_returns [where random = "roundedRandom e" and t = "tick w1" and k = k]
    by blast
  with assms(1) show ?thesis
    by (cases r) (simp add: getRandomPort_def Let_def)
qed

text \<open>
  Without a free port the loop never returns: here every draw is 5 and the port 3005 is
  taken.
\<close>

lemma drawPort_diverges: "drawPort (\<lambda>n. 5) [3005] t = None"
proof (rule ccontr)
  assume "drawPort (\<lambda>n. 5) [3005] t \<noteq> None"
  then obtain r where returned: "drawPort (\<lambda>n. 5) [3005] t = Some r"
    by auto
  have "(\<forall>n :: nat. (5 :: nat) = 5) \<and> [3005 :: nat] = [3005] \<longrightarrow> False"
  proof (rule drawPort.raw_induct
      [where P = "\<lambda>random portsInUse t r. (\<forall>n. random n = 5) \<and> portsInUse = [3005] \<longrightarrow> False",
        OF _ returned])
    fix loop :: "(nat \<Rightarrow> nat) \<Rightarrow> nat list \<Rightarrow> nat \<Rightarrow> (nat \<times> nat) option"
      and rnd used n res
    assume later: "\<And>rnd' used' n' res'. loop rnd' used' n' = Some res' \<Longrightarrow>
                     (\<forall>n. rnd' n = 5) \<and> used' = [3005] \<longrightarrow> False"
      and step: "(if 3000 + rnd n \<in> set used then loop rnd used (Suc n)
                  else Some (3000 + rnd n, Suc n)) = Some res"
    show "(\<forall>n. rnd n = 5) \<and> used = [3005] \<longrightarrow> False"
    proof
      assume stuck: "(\<forall>n. rnd n = 5) \<and> used = [3005]"
      with step have "loop rnd used (Suc n) = Some res" by simp
      from later [OF this] stuck show False by simp
    qed
  qed
  then show False by simp
qed

text \<open>
  \<open>getAllServices\<close> changes no port, so when free ports keep coming both allocations of
  \<open>createServiceConfiguration\<close> return, and with them \<open>deployService\<close>.
\<close>

lemma markOnline_ports: "ports (markOnline status h name service) = ports (h service)"
  by (simp add: markOnline_def split: property.splits)

lemma foldl_markOnline_ports: "ports (foldl (markOnline status) h names service) = ports (h service)"
  by (induction names arbitrary: h) (simp_all add: markOnline_ports)

lemma getAllServices_ports: "ports (heap (snd (getAllServices e w)) service) = ports (heap w service)"
  by (cases "runningContainers e (tick w)")
     (simp_all add: getAllServices_def getRunningContainers_def andThen_def Let_def foldl_markOnline_ports)

lemma getRandomPort_terminates:
  assumes "freePortsKeepComing e w"
  shows "\<exists>r w'. getRandomPort e w = Some (r, w')
                \<and> (\<forall>service. ports (heap w' service) = ports (heap w service))"
proof (cases "getAllServices e w")
  case (Pair r w1)
  have same: "ports (heap w1 service) = ports (heap w service)" for service
    using getAllServices_ports [of e w service] Pair by simp
  show ?thesis
  proof (cases r)
    case (Inl err)
    with Pair same show ?thesis by (simp add: getRandomPort_def)
  next
    case (Inr known)
    let ?inUse = "foldl (\<lambda>ps service. ps @ ports (heap w1 service)) [] known"
    from assms obtain k where
      "\<forall>service. 3000 + roundedRandom e (tick w1 + k) \<notin> set (ports (heap w service))"
      unfolding freePortsKeepComing_def by blast
    then have "3000 + roundedRandom e (tick w1 + k) \<notin> set ?inUse"
      by (simp add: set_foldl_append same)
    from drawPort_returns [where random = "roundedRandom e" and t = "tick w1" and k = k, OF this]
    obtain p where "drawPort (roundedRandom e) ?inUse (tick w1) = Some p" by blast
    with Pair Inr same show ?thesis
      by (cases p) (simp add: getRandomPort_def Let_def)
  qed
qed

lemma createServiceConfiguration_terminates:
  assumes "freePortsKeepComing e w"
  shows "createServiceConfiguration e w s \<noteq> None"
proof -
  from getRandomPort_terminates [OF assms] obtain r w1 where
    first: "getRandomPort e w = Some (r, w1)"
    and same: "\<And>service. ports (heap w1 service) = ports (heap w service)"
    by blast
  from assms same have "freePortsKeepComing e w1"
    by (simp add: freePortsKeepComing_def)
  from getRandomPort_terminates [OF this] obtain r2 w2 where
    second: "getRandomPort e w1 = Some (r2, w2)"
    by blast
  from first second show ?thesis
    by (cases r; cases r2) (simp_all add: createServiceConfiguration_def Let_def)
qed

lemma deployService_terminates:
  assumes "freePortsKeepComing e w"
  shows "deployService e w s \<noteq> None"
proof (cases "fetchServiceConfiguration e (tick w) (configurationUrl s)")
  case (Inl err)
  then show ?thesis by (simp add: deployService_def)
next
  case (Inr configuration)
  from assms have "freePortsKeepComing e (w\<lparr>tick := Suc (tick w)\<rparr>)"
    by (simp add: freePortsKeepComing_def)
  from createServiceConfiguration_terminates [OF this, of "spread s configuration"]
  obtain r w1 where
    "createServiceConfiguration e (w\<lparr>tick := Suc (tick w)\<rparr>) (spread s configuration) = Some (r, w1)"
    by auto
  with Inr show ?thesis
    by (cases r) (simp_all add: deployService_def Let_def)
qed

section \<open>Runs in the calm environment\<close>

text \<open>With an empty store of services, \<open>getAllServices\<close> lists nothing and changes nothing.\<close>

lemma markOnline_empty: "markOnline [] h name = h"
  by (simp add: markOnline_def lookup_def)

lemma foldl_markOnline_empty: "foldl (markOnline []) h names = h"
  by (induction names) (simp_all add: markOnline_empty)

lemma getAllServices_empty_store:
  assumes "data (services w) = []" and "runningContainers e (tick w) = Inr names"
  shows "getAllServices e w = (Inr [], w\<lparr>tick := Suc (tick w)\<rparr>)"
  using assms
  by (simp add: getAllServices_def getRunningContainers_def andThen_def fs_getAll_def objectValues_def
      foldl_markOnline_empty)

lemma getRandomPort_empty_store:
  assumes "data (services w) = []"
  shows "getRandomPort calmEnvironment w = Some (Inr 3005, w\<lparr>tick := Suc (Suc (tick w))\<rparr>)"
proof -
  have "runningContainers calmEnvironment (tick w) = Inr [[]]"
    and "roundedRandom calmEnvironment (Suc (tick w)) = 5"
    by (simp_all add: calmEnvironment_def)
  with getAllServices_empty_store [OF assms, of calmEnvironment "[[]]"] show ?thesis
    by (simp add: getRandomPort_def drawPort_free)
qed

lemma createServiceConfiguration_empty_store:
  assumes "data (services w) = []" and "\<not> hasWebSocket s"
  shows "createServiceConfiguration calmEnvironment w s =
           Some (allocate
             \<lparr>id' = getServiceId (repository s) (head s),
              type' = getServiceType (init [''node'', ''static'']) s,
              url' = url s, cloneUrl' = cloneUrl s, branch = head s, repository' = repository s,
              webSocket' = None,
              domains = map the (filter Boolean
                          [domain s, Some (take 7 (getServiceId (repository s) (head s)) @ ''.local'')]),
              ports = [3005],
              env' = putProp (map (\<lambda>(k, v). (k, EnvString v)) (case env s of None \<Rightarrow> [] | Some vars \<Rightarrow> vars))
                       ''PORT'' (EnvNumber 3005),
              imageId = None, online = None\<rparr>
             (w\<lparr>tick := Suc (Suc (tick w))\<rparr>))"
  using assms(2)
  by (simp add: createServiceConfiguration_def Let_def getRandomPort_empty_store [OF assms(1)])
     (simp add: calmEnvironment_def)

lemma initialWorld_empty: "data (services initialWorld) = []"
  by (simp add: initialWorld_def fs_init_def)


lemma initialWorld_has_nothing: "\<not> fs_has (services initialWorld) (getServiceId r h)"
  using digest_not_inherited [of r h]
  by (simp add: initialWorld_def fs_init_def fs_has_def hasProperty_def)

lemma getServiceKey_initial: "getServiceKey (initialWorld\<lparr>tick := t\<rparr>) r = Null"
  using sha256_not_inherited [of r]
  by (simp add: getServiceKey_def initialWorld_def fs_init_def fs_get_def lookup_def)

lemma plainService_no_webSocket: "\<not> hasWebSocket (plainService\<lparr>domain := d\<rparr>)"
  by (simp add: hasWebSocket_def plainService_def)

lemma createServiceKey_initial:
  "createServiceKey calmEnvironment initialWorld (Some ''git://x/y'') =
     (Inr (sha256 ''00''),
      initialWorld\<lparr>tick := 2,
                   serviceKeys := fs_set (serviceKeys initialWorld) (sha256 ''git://x/y'') (sha256 ''00'')\<rparr>)"
  using getServiceKey_initial [of "Suc 0" "''git://x/y''"]
  by (simp add: createServiceKey_def Let_def Boolean_def stringTruthy_def calmEnvironment_def)
     (simp add: initialWorld_def numeral_2_eq_2)

text \<open>
  A deployment from a state with an empty store; and two deployments in a row, the second
  before the callback of the first has run: the store is still empty, and both services get
  the port 3005.
\<close>

lemma deployService_empty_store:
  assumes "data (services w) = []"
  shows "deployService calmEnvironment w (plainService\<lparr>head := h\<rparr>) =
           Some (Inr (getServiceId ''git://x/y'' h),
                 w\<lparr>tick := Suc (Suc (Suc (tick w))), nextRef := Suc (nextRef w),
                   timers := timers w @ [nextRef w],
                   heap := (heap w)
                     (nextRef w :=
                        \<lparr>id' = getServiceId ''git://x/y'' h, type' = ''node'', url' = ''https://x/y'',
                         cloneUrl' = ''git://x/y'', branch = h, repository' = ''git://x/y'',
                         webSocket' = None,
                         domains = [take 7 (getServiceId ''git://x/y'' h) @ ''.local''],
                         ports = [3005], env' = [(''PORT'', EnvNumber 3005)],
                         imageId = None, online = None\<rparr>)\<rparr>)"
proof -
  have "\<not> hasWebSocket (spread (plainService\<lparr>head := h\<rparr>) [])"
    by (simp add: spread_def hasWebSocket_def plainService_def)
  moreover have "data (services (w\<lparr>tick := Suc (tick w)\<rparr>)) = []"
    using assms by simp
  ultimately show ?thesis
    using createServiceConfiguration_empty_store
      [of "w\<lparr>tick := Suc (tick w)\<rparr>" "spread (plainService\<lparr>head := h\<rparr>) []"]
    by (simp add: deployService_def Let_def allocate_def)
       (simp add: calmEnvironment_def plainService_def spread_def Boolean_def stringTruthy_def
          getServiceType_def init_def)
qed

lemma consecutive_deployments_share_a_port:
  "map_option (\<lambda>w. (timers w, ports (heap w 0), ports (heap w 1))) afterTwoDeployments
     = Some ([0, 1], [3005], [3005])"
proof -
  have first: "deployService calmEnvironment initialWorld (plainService\<lparr>head := ''master''\<rparr>) =
      Some (Inr (getServiceId ''git://x/y'' ''master''),
            initialWorld\<lparr>tick := Suc (Suc (Suc (tick initialWorld))), nextRef := Suc (nextRef initialWorld),
              timers := timers initialWorld @ [nextRef initialWorld],
              heap := (heap initialWorld)
                (nextRef initialWorld :=
                   \<lparr>id' = getServiceId ''git://x/y'' ''master'', type' = ''node'', url' = ''https://x/y'',
                    cloneUrl' = ''git://x/y'', branch = ''master'', repository' = ''git://x/y'',
                    webSocket' = None,
                    domains = [take 7 (getServiceId ''git://x/y'' ''master'') @ ''.local''],
                    ports = [3005], env' = [(''PORT'', EnvNumber 3005)],
                    imageId = None, online = None\<rparr>)\<rparr>)"
    (is "_ = Some (_, ?w1)")
    by (rule deployService_empty_store [OF initialWorld_empty])
  have "data (services ?w1) = []"
    by (simp add: initialWorld_empty)
  from deployService_empty_store [OF this, of "''dev''"] first show ?thesis
    by (simp add: afterTwoDeployments_def plainService_def)
       (simp add: initialWorld_def)
qed

section \<open>The build flag is carried through\<close>























section \<open>Deployment\<close>


lemma createServiceConfiguration_filtered_domains:
  assumes "createServiceConfiguration e w s = Some (Inr ref, w')"
  shows "domains (heap w' ref) =
           map the (filter Boolean
             [domain s, Some (take 7 (getServiceId (repository s) (head s)) @ ''.'' @ cloudyDomain e)])"
  using assms
  by (auto simp: createServiceConfiguration_def Let_def allocate_def
      split: option.splits sum.splits if_splits prod.splits)














section \<open>Service keys\<close>

lemma getServiceKey_tick: "getServiceKey (w\<lparr>tick := t\<rparr>) r = getServiceKey w r"
  by (simp add: getServiceKey_def)

lemma createServiceKey_raises_before_writing:
  "isl (fst (createServiceKey e w x)) \<Longrightarrow> serviceKeys (snd (createServiceKey e w x)) = serviceKeys w"
  by (auto simp: createServiceKey_def Let_def split: sum.splits bool.splits if_splits)

lemma createServiceKey_registered:
  "getServiceKey w r \<noteq> Null \<Longrightarrow> isl (fst (createServiceKey e w (Some r)))"
  by (auto simp: createServiceKey_def Let_def getServiceKey_tick split: sum.splits bool.splits)

lemma createServiceKey_registered_message:
  "r \<noteq> [] \<Longrightarrow> repositoryExists e (tick w) r = Inr True \<Longrightarrow> getServiceKey w r \<noteq> Null \<Longrightarrow>
   fst (createServiceKey e w (Some r)) = Inl (Error ''Service already exists'')"
  by (simp add: createServiceKey_def Let_def getServiceKey_tick Boolean_def stringTruthy_def)

lemma createServiceKey_missing:
  "repositoryExists e (tick w) r = Inr False \<Longrightarrow> isl (fst (createServiceKey e w (Some r)))"
  by (simp add: createServiceKey_def Let_def)

lemma createServiceKey_missing_message:
  "r \<noteq> [] \<Longrightarrow> repositoryExists e (tick w) r = Inr False \<Longrightarrow>
   fst (createServiceKey e w (Some r)) = Inl (Error ''Repository not found'')"
  by (simp add: createServiceKey_def Let_def Boolean_def stringTruthy_def)

lemma createServiceKey_success:
  assumes "createServiceKey e w (Some r) = (Inr key, w')"
  shows "getServiceKey w r = Null
         \<and> serviceKeys w' = fs_set (serviceKeys w) (sha256 r) key
         \<and> getServiceKey w' r = Value key
         \<and> (\<forall>k. k \<noteq> sha256 r \<longrightarrow> lookup (data (serviceKeys w')) k = lookup (data (serviceKeys w)) k)"
proof -
  from assms have unregistered: "getServiceKey w r = Null"
    and stored: "serviceKeys w' = fs_set (serviceKeys w) (sha256 r) key"
    and key: "key = sha256 (randomBytesHex e (Suc (tick w)))"
    by (auto simp: createServiceKey_def Let_def getServiceKey_tick split: sum.splits bool.splits if_splits)
  have "getServiceKey w' r = Value key"
    using sha256_truthy [of "randomBytesHex e (Suc (tick w))"]
    by (simp add: getServiceKey_def stored fs_get_def fs_set_def lookup_assign_same sha256_not_proto key)
  moreover have "lookup (data (serviceKeys w')) k = lookup (data (serviceKeys w)) k" if "k \<noteq> sha256 r" for k
    using that by (simp add: stored fs_set_def lookup_assign_other sha256_not_proto)
  ultimately show ?thesis
    using unregistered stored by blast
qed

text \<open>
  The keys that \<open>createServiceKey\<close> stores are digests, hence non-empty. In a store that
  holds only non-empty keys, a repository has a key exactly when \<open>has\<close> finds its digest.
\<close>

lemma list_all_putProp:
  "list_all P obj \<Longrightarrow> P (name, v) \<Longrightarrow> list_all P (putProp obj name v)"
  by (induction obj name v rule: putProp.induct) auto

lemma getServiceKey_of_has:
  assumes "list_all (\<lambda>p. stringTruthy (snd p)) (data (serviceKeys w))"
    and "fs_has (serviceKeys w) (sha256 r)"
  shows "getServiceKey w r \<noteq> Null"
proof -
  from assms(2) obtain key where found: "map_of (data (serviceKeys w)) (sha256 r) = Some key"
    using sha256_not_inherited [of r] by (auto simp: fs_has_def hasProperty_def)
  then have "(sha256 r, key) \<in> set (data (serviceKeys w))"
    by (rule map_of_SomeD)
  with assms(1) have "stringTruthy key"
    by (auto simp: list_all_iff)
  with found show ?thesis
    by (simp add: getServiceKey_def fs_get_def lookup_def)
qed

lemma createServiceKey_keeps_keys_truthy:
  assumes "list_all (\<lambda>p. stringTruthy (snd p)) (data (serviceKeys w))"
  shows "list_all (\<lambda>p. stringTruthy (snd p)) (data (serviceKeys (snd (createServiceKey e w x))))"
  using assms sha256_truthy
  by (auto simp: createServiceKey_def Let_def fs_set_def assign_def sha256_not_proto
      intro!: list_all_putProp split: sum.splits bool.splits)

section \<open>Claims\<close>

subsection \<open>C1: the service identity\<close>

text \<open>
  C1 (as amended). \<open>getServiceId\<close> is a function of its two arguments, so repeated calls
  with the same pair return the same identity. The identity is the SHA-256 digest of the
  concatenation \<open>repository + head\<close>, rendered as 64 lowercase hexadecimal digits, and it
  depends on the pair only through that concatenation.
\<close>

theorem getServiceId_digest:
  "getServiceId r h = sha256 (r @ h)
   \<and> getServiceId r h = getServiceId (r @ h) []
   \<and> length (getServiceId r h) = 64
   \<and> set (getServiceId r h) \<subseteq> set ''0123456789abcdef''"
  using length_sha256 [of "r @ h"] set_sha256 [of "r @ h"]
  by (simp add: getServiceId_def hexDigits_def)

text \<open>
  C1 as stated fails: the pairs \<open>("ab", "c")\<close> and \<open>("a", "bc")\<close> are different and have
  the same concatenation, hence the same identity.
\<close>

theorem getServiceId_not_injective:
  "(''ab'', ''c'') \<noteq> (''a'', ''bc'') \<and> getServiceId ''ab'' ''c'' = getServiceId ''a'' ''bc''"
  by (simp add: getServiceId_def)

subsection \<open>C2: allocated ports\<close>

text \<open>
  C2 fails on the code. \<open>getRandomPort\<close> compares a candidate with the ports of the services
  in the store (lemma \<open>getRandomPort_fresh\<close>), and the object under construction is not in
  the store: when the service declares a web socket, the second call knows nothing of the
  port the first call returned. In the initial state, with a random source that yields the
  same number twice, the new service gets the port 3005 for HTTP and 3005 for the web
  socket. (A service enters the store only when its queued callback runs, so two
  deployments in a row can share a port too: lemma \<open>consecutive_deployments_share_a_port\<close>.)
\<close>

theorem same_port_twice:
  "map_option ports
     (createdService (createServiceConfiguration calmEnvironment initialWorld webSocketService))
   = Some [3005, 3005]"
proof -
  have "getRandomPort calmEnvironment initialWorld =
          Some (Inr 3005, initialWorld\<lparr>tick := Suc (Suc (tick initialWorld))\<rparr>)"
    by (rule getRandomPort_empty_store [OF initialWorld_empty])
  moreover have "getRandomPort calmEnvironment (initialWorld\<lparr>tick := Suc (Suc (tick initialWorld))\<rparr>) =
          Some (Inr 3005, initialWorld\<lparr>tick := Suc (Suc (Suc (Suc (tick initialWorld))))\<rparr>)"
    using getRandomPort_empty_store [of "initialWorld\<lparr>tick := Suc (Suc (tick initialWorld))\<rparr>"]
    by (simp add: initialWorld_empty)
  ultimately show ?thesis
    by (simp add: createServiceConfiguration_def createdService_def hasWebSocket_def webSocketService_def
        plainService_def Boolean_def stringTruthy_def allocate_def Let_def)
qed

subsection \<open>C3: the online flag\<close>

text \<open>
  C3 fails on the code. \<open>getAllServices\<close> writes \<open>online = true\<close> into the stored object
  of every service that runs and never takes it back. Here the container \<open>a\<close> runs at the
  first call and not at the second; the second call still returns the service with
  \<open>online = true\<close>.
\<close>

theorem stale_online_flag:
  "runningContainers stoppedLaterEnvironment
       (tick (snd (getAllServices stoppedLaterEnvironment oneServiceWorld))) = Inr [[]]
   \<and> fst (getAllServices stoppedLaterEnvironment
            (snd (getAllServices stoppedLaterEnvironment oneServiceWorld))) = Inr [0]
   \<and> online (heap (snd (getAllServices stoppedLaterEnvironment
                      (snd (getAllServices stoppedLaterEnvironment oneServiceWorld)))) 0) = Some True"
  by (simp add: getAllServices_def getRunningContainers_def andThen_def stoppedLaterEnvironment_def
      calmEnvironment_def oneServiceWorld_def initialWorld_def fs_getAll_def fs_init_def fs_set_def
      assign_def objectValues_def lookup_def objectPrototypeKeys_def markOnline_def blankService_def)

subsection \<open>C4: errors of a deployment\<close>



subsection \<open>C5: the store\<close>




subsection \<open>C6: the domains of a service\<close>

text \<open>
  C6 (as amended). The domains of a created service are the explicit domain, when the
  descriptor has a non-empty one, followed by the derived subdomain: the first 7 characters
  of the identity, a dot, and the base domain. Nothing removes a duplicate: the list has no
  repetition exactly when the explicit domain differs from the derived subdomain.
\<close>

theorem createServiceConfiguration_domains:
  assumes "createServiceConfiguration e w s = Some (Inr ref, w')"
  shows "domains (heap w' ref) =
           (if Boolean (domain s) then [the (domain s)] else [])
             @ [take 7 (getServiceId (repository s) (head s)) @ ''.'' @ cloudyDomain e]
         \<and> distinct (domains (heap w' ref)) =
             (domain s \<noteq> Some (take 7 (getServiceId (repository s) (head s)) @ ''.'' @ cloudyDomain e))"
  using createServiceConfiguration_filtered_domains [OF assms]
  by (cases "domain s") (auto simp: Boolean_def stringTruthy_def)

text \<open>Witness for C6: \<open>git://x/y\<close> at \<open>master\<close> with the explicit domain \<open>example.org\<close>.\<close>

theorem createServiceConfiguration_domains_witness:
  "createdService (createServiceConfiguration calmEnvironment initialWorld
       (plainService\<lparr>domain := Some ''example.org''\<rparr>)) \<noteq> None
   \<and> map_option domains (createdService (createServiceConfiguration calmEnvironment initialWorld
       (plainService\<lparr>domain := Some ''example.org''\<rparr>)))
      = Some [''example.org'', ''bb020d4.local'']"
proof -
  let ?s = "plainService\<lparr>domain := Some ''example.org''\<rparr>"
  from createServiceConfiguration_empty_store [OF initialWorld_empty plainService_no_webSocket]
  obtain ref w' where created:
    "createServiceConfiguration calmEnvironment initialWorld ?s = Some (Inr ref, w')"
    by (simp add: allocate_def)
  from createServiceConfiguration_domains [OF created]
  have "domains (heap w' ref) = [''example.org'', ''bb020d4.local'']"
    using identity_of_x_y_master
    by (simp add: plainService_def Boolean_def stringTruthy_def calmEnvironment_def)
  with created show ?thesis
    by (simp add: createdService_def)
qed

text \<open>
  C6 as stated fails: when the explicit domain is the derived subdomain, here
  \<open>bb020d4.local\<close> for \<open>git://x/y\<close> at \<open>master\<close>, the hostname appears twice.
\<close>

theorem duplicate_domain:
  "map_option domains (createdService (createServiceConfiguration calmEnvironment initialWorld
       (plainService\<lparr>domain := Some ''bb020d4.local''\<rparr>)))
   = Some [''bb020d4.local'', ''bb020d4.local'']"
  using createServiceConfiguration_empty_store
    [OF initialWorld_empty plainService_no_webSocket, of "Some ''bb020d4.local''"]
  by (simp add: createdService_def allocate_def plainService_def Boolean_def stringTruthy_def
      identity_of_x_y_master)

subsection \<open>C7: service keys\<close>

text \<open>
  C7. \<open>createServiceKey\<close> raises when the repository already has a key (\<open>'Service already
  exists'\<close> once the source host has confirmed the repository) and when the source host says
  that the repository does not exist (\<open>'Repository not found'\<close>). Whenever it raises, the
  key store is as it was. When it succeeds, the repository had no key, the store has gained
  the returned key under the digest of the repository and is unchanged at every other key,
  and the repository now has that key. A repository has a key when \<open>getServiceKey\<close> returns
  one; in a store of non-empty keys, which is what \<open>createServiceKey\<close> maintains, that is
  when \<open>has\<close> finds the digest of the repository.
\<close>

theorem createServiceKey_registration:
  "(getServiceKey w r \<noteq> Null \<longrightarrow> isl (fst (createServiceKey e w (Some r))))
   \<and> (r \<noteq> [] \<longrightarrow> repositoryExists e (tick w) r = Inr True \<longrightarrow> getServiceKey w r \<noteq> Null \<longrightarrow>
         fst (createServiceKey e w (Some r)) = Inl (Error ''Service already exists''))
   \<and> (repositoryExists e (tick w) r = Inr False \<longrightarrow> isl (fst (createServiceKey e w (Some r))))
   \<and> (r \<noteq> [] \<longrightarrow> repositoryExists e (tick w) r = Inr False \<longrightarrow>
         fst (createServiceKey e w (Some r)) = Inl (Error ''Repository not found''))
   \<and> (isl (fst (createServiceKey e w x)) \<longrightarrow>
         serviceKeys (snd (createServiceKey e w x)) = serviceKeys w)
   \<and> (list_all (\<lambda>p. stringTruthy (snd p)) (data (serviceKeys w)) \<longrightarrow>
         fs_has (serviceKeys w) (sha256 r) \<longrightarrow> isl (fst (createServiceKey e w (Some r))))
   \<and> (list_all (\<lambda>p. stringTruthy (snd p)) (data (serviceKeys w)) \<longrightarrow>
         list_all (\<lambda>p. stringTruthy (snd p)) (data (serviceKeys (snd (createServiceKey e w x)))))
   \<and> (\<forall>key w'. createServiceKey e w (Some r) = (Inr key, w') \<longrightarrow>
         getServiceKey w r = Null
         \<and> serviceKeys w' = fs_set (serviceKeys w) (sha256 r) key
         \<and> getServiceKey w' r = Value key
         \<and> (\<forall>k. k \<noteq> sha256 r \<longrightarrow>
               lookup (data (serviceKeys w')) k = lookup (data (serviceKeys w)) k))"
  using createServiceKey_registered [of w r e] createServiceKey_registered_message [of r e w]
    createServiceKey_missing [of e w r] createServiceKey_missing_message [of r e w]
    createServiceKey_raises_before_writing [of e w x] createServiceKey_success [of e w r]
    getServiceKey_of_has [of w r] createServiceKey_keeps_keys_truthy [of w e x]
  by blast

text \<open>
  Witness for C7: the first key for \<open>git://x/y\<close> is created and stored; a second call for
  the same repository raises and leaves the store alone; so does a call for a repository
  that the source host does not know.
\<close>

theorem createServiceKey_registration_witness:
  "createServiceKey calmEnvironment initialWorld (Some ''git://x/y'') = (Inr (sha256 ''00''), registeredWorld)
   \<and> getServiceKey registeredWorld ''git://x/y'' = Value (sha256 ''00'')
   \<and> list_all (\<lambda>p. stringTruthy (snd p)) (data (serviceKeys registeredWorld))
   \<and> fs_has (serviceKeys registeredWorld) (sha256 ''git://x/y'')
   \<and> fst (createServiceKey calmEnvironment registeredWorld (Some ''git://x/y''))
       = Inl (Error ''Service already exists'')
   \<and> serviceKeys (snd (createServiceKey calmEnvironment registeredWorld (Some ''git://x/y'')))
       = serviceKeys registeredWorld
   \<and> repositoryExists missingRepositoryEnvironment (tick initialWorld) ''git://x/y'' = Inr False
   \<and> fst (createServiceKey missingRepositoryEnvironment initialWorld (Some ''git://x/y''))
       = Inl (Error ''Repository not found'')
   \<and> serviceKeys (snd (createServiceKey missingRepositoryEnvironment initialWorld (Some ''git://x/y'')))
       = serviceKeys initialWorld"
proof -
  have first: "createServiceKey calmEnvironment initialWorld (Some ''git://x/y'')
                 = (Inr (sha256 ''00''), registeredWorld)"
    by (simp add: registeredWorld_def createServiceKey_initial)
  from createServiceKey_registration [of initialWorld "''git://x/y''" calmEnvironment] first
  have registered: "getServiceKey registeredWorld ''git://x/y'' = Value (sha256 ''00'')"
    by blast
  have empty: "list_all (\<lambda>p. stringTruthy (snd p)) (data (serviceKeys initialWorld))"
    by (simp add: initialWorld_def fs_init_def)
  from createServiceKey_registration [of initialWorld "''git://x/y''" calmEnvironment "Some ''git://x/y''"]
    empty
  have "list_all (\<lambda>p. stringTruthy (snd p))
          (data (serviceKeys (snd (createServiceKey calmEnvironment initialWorld (Some ''git://x/y'')))))"
    by blast
  then have truthy: "list_all (\<lambda>p. stringTruthy (snd p)) (data (serviceKeys registeredWorld))"
    by (simp only: registeredWorld_def)
  have found: "fs_has (serviceKeys registeredWorld) (sha256 ''git://x/y'')"
    using sha256_not_proto [of "''git://x/y''"]
    by (simp add: registeredWorld_def createServiceKey_initial fs_has_def fs_set_def hasProperty_def
        assign_def map_of_putProp_same)
  have known: "repositoryExists calmEnvironment (tick registeredWorld) ''git://x/y'' = Inr True"
    by (simp add: calmEnvironment_def)
  from createServiceKey_registration [of registeredWorld "''git://x/y''" calmEnvironment "Some ''git://x/y''"]
    registered known
  have second: "fst (createServiceKey calmEnvironment registeredWorld (Some ''git://x/y''))
                  = Inl (Error ''Service already exists'')
                \<and> serviceKeys (snd (createServiceKey calmEnvironment registeredWorld (Some ''git://x/y'')))
                  = serviceKeys registeredWorld"
    by auto
  have unknown: "repositoryExists missingRepositoryEnvironment (tick initialWorld) ''git://x/y'' = Inr False"
    by (simp add: missingRepositoryEnvironment_def)
  from createServiceKey_registration
    [of initialWorld "''git://x/y''" missingRepositoryEnvironment "Some ''git://x/y''"] unknown
  have third: "fst (createServiceKey missingRepositoryEnvironment initialWorld (Some ''git://x/y''))
                 = Inl (Error ''Repository not found'')
               \<and> serviceKeys (snd (createServiceKey missingRepositoryEnvironment initialWorld (Some ''git://x/y'')))
                 = serviceKeys initialWorld"
    by auto
  from first registered truthy found second unknown third show ?thesis
    by simp
qed

subsection \<open>C8: rebuilding an unknown service\<close>

text \<open>
  C8. When the store has no entry under the identity of \<open>(repository, head)\<close>,
  \<open>rebuildRepository\<close> raises the not-found error and the state is as before: no command
  was issued to the container engine or to the proxy.
\<close>

theorem rebuildRepository_unknown:
  assumes "\<not> fs_has (services w) (getServiceId r (orMaster h))"
  shows "rebuildRepository e w r h =
           (Inl (Error (''Service configuration for '' @ r @ '':'' @ orMaster h @ '' not found!'')), w)"
  by (simp add: rebuildRepository_def fs_get_absent [OF assms])

text \<open>Witness for C8: the scenario of the specification, in the initial state.\<close>

theorem rebuildRepository_unknown_witness:
  "\<not> fs_has (services initialWorld) (getServiceId ''git://x/y'' (orMaster (Some ''nope'')))
   \<and> rebuildRepository calmEnvironment initialWorld ''git://x/y'' (Some ''nope'') =
       (Inl (Error ''Service configuration for git://x/y:nope not found!''), initialWorld)
   \<and> commands (snd (rebuildRepository calmEnvironment initialWorld ''git://x/y'' (Some ''nope''))) = []"
  using rebuildRepository_unknown [of initialWorld "''git://x/y''" "Some ''nope''" calmEnvironment]
    initialWorld_has_nothing [of "''git://x/y''" "''nope''"]
  by (simp add: orMaster_def) (simp add: initialWorld_def)

subsection \<open>C9: the type of a service\<close>

text \<open>
  C9. The resolved type is the declared type when the directory of images has an entry of
  that name, and the default type otherwise, also when no type is declared. (An entry of a
  directory has a non-empty name.) The default that \<open>init\<close> configures is \<open>node\<close>.
\<close>

theorem getServiceType_resolution:
  assumes "[] \<notin> set (availableServiceTypes d)"
  shows "getServiceType d service =
           (case type service of
              None \<Rightarrow> defaultServiceType d
            | Some t \<Rightarrow> if t \<in> set (availableServiceTypes d) then t else defaultServiceType d)
         \<and> availableServiceTypes (init images) = images
         \<and> defaultServiceType (init images) = ''node''"
  using assms by (auto simp: getServiceType_def stringTruthy_def init_def split: option.splits)

text \<open>Witness for C9: a supported type, an unsupported type and no type.\<close>

theorem getServiceType_resolution_witness:
  "[] \<notin> set (availableServiceTypes (init [''node'', ''static'']))
   \<and> getServiceType (init [''node'', ''static'']) (plainService\<lparr>type := Some ''static''\<rparr>) = ''static''
   \<and> getServiceType (init [''node'', ''static'']) (plainService\<lparr>type := Some ''ruby''\<rparr>) = ''node''
   \<and> getServiceType (init [''node'', ''static'']) plainService = ''node''"
proof -
  have names: "[] \<notin> set (availableServiceTypes (init [''node'', ''static'']))"
    by (simp add: init_def)
  from getServiceType_resolution [OF names, of "plainService\<lparr>type := Some ''static''\<rparr>"]
    getServiceType_resolution [OF names, of "plainService\<lparr>type := Some ''ruby''\<rparr>"]
    getServiceType_resolution [OF names, of plainService] names
  show ?thesis
    by (simp add: init_def plainService_def)
qed

subsection \<open>C10: the build flag\<close>


end
